theory Spec2Isabelle
  imports Complex_Main
begin

section \<open>Conventions of the embedding\<close>

text \<open>
  The development embeds the logic of the image editor: the canvas helpers of
  \<^verbatim>\<open>src/utils/fileUtils.ts\<close>, the prompt compiler and remote call of
  \<^verbatim>\<open>editImageWithPrompt\<close>, and the event handlers of \<^verbatim>\<open>src/App.tsx\<close>.

  \<^item> A JavaScript \<^verbatim>\<open>number\<close> is modelled by an exact rational. The model agrees with the
    code on finite values and nonzero divisors; rounding error of IEEE doubles, \<^verbatim>\<open>NaN\<close>
    and the infinities are outside it. A \<^verbatim>\<open>number | null\<close> is a \<open>rat option\<close>.
  \<^item> A JavaScript string is modelled by the list of its UTF-8 bytes, so concatenation,
    equality and \<^verbatim>\<open>includes\<close> are those of lists. \<^verbatim>\<open>toLowerCase\<close> and \<^verbatim>\<open>parseFloat\<close>
    are supplied by the environment.
  \<^item> A promise is modelled by its final state: pending for ever, rejected with the value
    thrown, or resolved.
  \<^item> Everything the browser and the remote service decide is read from a record of the
    environment: whether an image URL decodes and with which size, whether a canvas context
    is available, the bytes a canvas encodes to, the box of the image container, and the
    answer of the remote model.
\<close>

subsection \<open>Numbers\<close>

text \<open>\<^verbatim>\<open>Math.round\<close>: the nearest integer, a tie going up.\<close>

definition Math_round :: "rat \<Rightarrow> int" where
  "Math_round v = \<lfloor>v + 1 / 2\<rfloor>"

text \<open>A \<^verbatim>\<open>number | null\<close> used as a condition: neither \<^verbatim>\<open>null\<close> nor zero.\<close>

definition truthy_number :: "rat option \<Rightarrow> bool" where
  "truthy_number v = (case v of None \<Rightarrow> False | Some r \<Rightarrow> r \<noteq> 0)"

text \<open>A \<^verbatim>\<open>string | null\<close> used as a condition: neither \<^verbatim>\<open>null\<close> nor empty.\<close>

definition truthy_string :: "string option \<Rightarrow> bool" where
  "truthy_string v = (case v of None \<Rightarrow> False | Some s \<Rightarrow> s \<noteq> [])"

subsection \<open>Strings\<close>

text \<open>The accented letters of the messages, as UTF-8.\<close>

definition aacute :: string where "aacute = [CHR 0xC3, CHR 0xA1]"
definition atilde :: string where "atilde = [CHR 0xC3, CHR 0xA3]"
definition ccedil :: string where "ccedil = [CHR 0xC3, CHR 0xA7]"
definition eacute :: string where "eacute = [CHR 0xC3, CHR 0xA9]"
definition ecirc :: string where "ecirc = [CHR 0xC3, CHR 0xAA]"
definition iacute :: string where "iacute = [CHR 0xC3, CHR 0xAD]"
definition otilde :: string where "otilde = [CHR 0xC3, CHR 0xB5]"
definition uacute :: string where "uacute = [CHR 0xC3, CHR 0xBA]"
definition Aacute :: string where "Aacute = [CHR 0xC3, CHR 0x81]"
definition Atilde :: string where "Atilde = [CHR 0xC3, CHR 0x83]"
definition Ccedil :: string where "Ccedil = [CHR 0xC3, CHR 0x87]"
definition Eacute :: string where "Eacute = [CHR 0xC3, CHR 0x89]"

text \<open>\<^verbatim>\<open>s.startsWith(k)\<close> and \<^verbatim>\<open>s.includes(k)\<close>.\<close>

fun startsWith :: "string \<Rightarrow> string \<Rightarrow> bool" where
  "startsWith s [] = True"
| "startsWith [] (k # ks) = False"
| "startsWith (c # cs) (k # ks) = (c = k \<and> startsWith cs ks)"

fun String_includes :: "string \<Rightarrow> string \<Rightarrow> bool" where
  "String_includes [] k = (k = [])"
| "String_includes (c # cs) k = (startsWith (c # cs) k \<or> String_includes cs k)"

text \<open>\<^verbatim>\<open>lines.join(sep)\<close>.\<close>

fun join :: "string \<Rightarrow> string list \<Rightarrow> string" where
  "join sep [] = []"
| "join sep [l] = l"
| "join sep (l # m # ls) = l @ sep @ join sep (m # ls)"

text \<open>\<^verbatim>\<open>s.split(':')\<close>: the pieces between the colons, at least one piece.\<close>

fun split_colon :: "string \<Rightarrow> string list" where
  "split_colon [] = [[]]"
| "split_colon (c # cs) =
     (if c = CHR '':'' then [] # split_colon cs
      else (case split_colon cs of
              [] \<Rightarrow> [[c]]
            | p # ps \<Rightarrow> (c # p) # ps))"

text \<open>An integer in a template literal: its decimal digits, with a sign when negative.\<close>

fun digits :: "nat \<Rightarrow> string" where
  "digits n =
     (if n < 10 then [char_of (48 + n)]
      else digits (n div 10) @ [char_of (48 + n mod 10)])"

definition String_of_int :: "int \<Rightarrow> string" where
  "String_of_int i = (if i < 0 then ''-'' @ digits (nat (- i)) else digits (nat i))"

subsection \<open>Promises\<close>

text \<open>
  A value thrown is an \<^verbatim>\<open>Error\<close> instance with its message, or any other value, given by
  its text; such a value is taken to have no \<^verbatim>\<open>message\<close>.
\<close>

datatype thrown = JsError string | NonError string

datatype 'a promise = Pending | Rejected thrown | Resolved 'a

section \<open>Data of the editor\<close>

record dims =
  width :: int
  height :: int

text \<open>A \<^verbatim>\<open>File\<close> chosen by the user.\<close>

record File =
  file_name :: string
  file_size :: nat
  file_type :: string

text \<open>What a canvas has drawn when it is encoded: the source and the arguments of
  \<^verbatim>\<open>drawImage\<close>, with the size of the canvas.\<close>

datatype drawing =
  CropDrawing string int int int int
| PadDrawing string int int int int

text \<open>The parts of a request, and the parts of a response.\<close>

datatype part = InlineData string string | Text string

record response_part =
  inlineData :: "string option"

type_synonym response = "response_part list option list option"

record env =
  decode :: "string \<Rightarrow> (nat \<times> nat) option"
  getContext :: bool
  toDataURL :: "drawing \<Rightarrow> string"
  getBoundingClientRect :: "(rat \<times> rat) option"
  parseFloat :: "string \<Rightarrow> rat option"
  toLowerCase :: "string \<Rightarrow> string"
  API_KEY :: bool
  generateContent :: "part list \<Rightarrow> response promise"
  createObjectURL :: "File \<Rightarrow> string"
  readAsDataURL :: "File \<Rightarrow> string promise"

text \<open>
  \<^item> \<open>decode e u\<close>: loading the URL \<open>u\<close> into an \<^verbatim>\<open>Image\<close> fires \<^verbatim>\<open>onload\<close> with this
    natural width and height, or fires \<^verbatim>\<open>onerror\<close> (\<open>None\<close>).
  \<^item> \<open>getContext e\<close>: \<^verbatim>\<open>canvas.getContext('2d')\<close> is not \<^verbatim>\<open>null\<close>.
  \<^item> \<open>toDataURL e d\<close>: the Base64 text after the comma of \<^verbatim>\<open>canvas.toDataURL('image/png')\<close>.
  \<^item> \<open>getBoundingClientRect e\<close>: width and height of the box of \<^verbatim>\<open>imageContainerRef.current\<close>, if
    the reference is set.
  \<^item> \<open>readAsDataURL e f\<close>: the Base64 text that \<^verbatim>\<open>fileToBase64\<close> resolves with.
\<close>

section \<open>The prompt compiler and the remote call\<close>

text \<open>The pieces of \<^verbatim>\<open>editImageWithPrompt\<close> are named after its local variables.\<close>

definition qualityInstruction :: "string \<Rightarrow> string" where
  "qualityInstruction quality =
     (if quality = ''high'' then
        ''Gere a imagem com a mais alta fidelidade poss'' @ iacute @
        ''vel, preservando detalhes n'' @ iacute @
        ''tidos e evitando artefatos visuais ou de compress'' @ atilde @ ''o.''
      else if quality = ''4k'' then
        ''Gere a imagem com detalhes fotorrealistas e a mais alta resolu'' @ ccedil @ atilde @
        ''o poss'' @ iacute @ ''vel. Foque em texturas complexas, ilumina'' @ ccedil @ atilde @
        ''o realista e renderiza'' @ ccedil @ atilde @ ''o n'' @ iacute @
        ''tida, como se fosse para uma tela 4K.''
      else [])"

definition qualityKeywords :: "string list" where
  "qualityKeywords =
     [''melhore a qualidade'', ''aumente a qualidade'',
      ''alta resolu'' @ ccedil @ atilde @ ''o'', ''mais n'' @ iacute @ ''tido'',
      ''mais detalhes'', ''qualidade 4k'', ''ultra realista'', ''fotorrealista'',
      ''hd'', ''uhd'', ''deixe mais real'', ''melhorar a imagem'']"

definition explicit_quality_request :: string where
  "explicit_quality_request =
     ''O usu'' @ aacute @ ''rio solicitou um aumento expl'' @ iacute @
     ''cito na qualidade. Priorize a gera'' @ ccedil @ atilde @
     ''o da imagem com o m'' @ aacute @
     ''ximo de detalhes, nitidez, clareza e fotorrealismo poss'' @ iacute @ ''vel.''"

definition qualityInstructionFromPrompt :: "env \<Rightarrow> string \<Rightarrow> string" where
  "qualityInstructionFromPrompt e prompt =
     (let lowerCasePrompt = toLowerCase e prompt
      in if list_ex (\<lambda>keyword. String_includes lowerCasePrompt keyword) qualityKeywords
         then explicit_quality_request
         else [])"

definition isOutpaintingTask :: "string \<Rightarrow> bool" where
  "isOutpaintingTask aspectRatio = (aspectRatio \<noteq> ''original'')"

definition dimensionRule :: "bool \<Rightarrow> dims \<Rightarrow> string" where
  "dimensionRule outpainting dimensions =
     (if outpainting then
        ''**REGRA INQUEBR'' @ Aacute @
        ''VEL:** A imagem final DEVE ter EXATAMENTE as mesmas dimens'' @ otilde @
        ''es da PRIMEIRA imagem fornecida ('' @ String_of_int (width dimensions) @ ''x'' @
        String_of_int (height dimensions) @ '' pixels). A primeira imagem cont'' @ eacute @
        ''m '' @ aacute @ ''reas transparentes. Sua tarefa '' @ eacute @
        '' preencher essas '' @ aacute @
        ''reas transparentes de forma criativa e realista, criando uma continua'' @ ccedil @
        atilde @ ''o natural da imagem existente. O resultado final N'' @ Atilde @
        ''O PODE ter nenhuma '' @ aacute @ ''rea transparente.''
      else
        ''**REGRA INQUEBR'' @ Aacute @
        ''VEL:** A imagem final DEVE ter EXATAMENTE as mesmas dimens'' @ otilde @
        ''es e propor'' @ ccedil @ atilde @ ''o da PRIMEIRA imagem fornecida ('' @
        String_of_int (width dimensions) @ ''x'' @ String_of_int (height dimensions) @
        '' pixels). '' @ Eacute @
        '' PROIBIDO cortar, redimensionar ou alterar a propor'' @ ccedil @ atilde @
        ''o original.'')"

definition editTask :: "bool \<Rightarrow> string \<Rightarrow> string" where
  "editTask outpainting prompt =
     (if outpainting then
        ''**TAREFA DE EDI'' @ Ccedil @ Atilde @ ''O:** Dentro da '' @ aacute @ ''rea j'' @
        aacute @ '' vis'' @ iacute @ ''vel (n'' @ atilde @
        ''o-transparente) da primeira imagem, aplique a seguinte edi'' @ ccedil @ atilde @
        ''o: '' @ [CHR 0x22] @ prompt @ [CHR 0x22] @ ''. Se o comando for gen'' @ eacute @
        ''rico (ex: '' @ [CHR 0x22] @ ''melhore a imagem'' @ [CHR 0x22] @
        ''), aplique-o em toda a cena final.''
      else
        ''**TAREFA DE EDI'' @ Ccedil @ Atilde @
        ''O:** Edite a PRIMEIRA imagem com base no seguinte comando: '' @ [CHR 0x22] @
        prompt @ [CHR 0x22] @ ''.'')"

definition referenceRule :: string where
  "referenceRule =
     ''**AVISO:** A SEGUNDA imagem '' @ eacute @ '' apenas para refer'' @ ecirc @
     ''ncia de estilo ou objeto. IGNORE TOTALMENTE as suas dimens'' @ otilde @
     ''es e propor'' @ ccedil @ atilde @ ''o. A '' @ uacute @ ''nica regra de dimens'' @
     otilde @ ''es v'' @ aacute @ ''lida '' @ eacute @ '' a '' @ [CHR 0x27] @
     ''REGRA INQUEBR'' @ Aacute @ ''VEL'' @ [CHR 0x27] @ '' acima.''"

text \<open>\<^verbatim>\<open>[qualityInstruction, qualityInstructionFromPrompt].filter(Boolean).join(' ')\<close>.\<close>

definition qualityText :: "env \<Rightarrow> string \<Rightarrow> string \<Rightarrow> string" where
  "qualityText e quality prompt =
     join '' '' (filter (\<lambda>t. t \<noteq> [])
       [qualityInstruction quality, qualityInstructionFromPrompt e prompt])"

definition promptLines ::
  "env \<Rightarrow> string \<Rightarrow> string option \<Rightarrow> dims \<Rightarrow> string \<Rightarrow> string \<Rightarrow> string list" where
  "promptLines e prompt attachedImageBase64 dimensions aspectRatio quality =
     [dimensionRule (isOutpaintingTask aspectRatio) dimensions] @
     [editTask (isOutpaintingTask aspectRatio) prompt] @
     (if truthy_string attachedImageBase64 then [referenceRule] else []) @
     (if qualityText e quality prompt \<noteq> []
      then [''**QUALIDADE:** '' @ qualityText e quality prompt] else [])"

definition enhancedPrompt ::
  "env \<Rightarrow> string \<Rightarrow> string option \<Rightarrow> dims \<Rightarrow> string \<Rightarrow> string \<Rightarrow> string" where
  "enhancedPrompt e prompt attachedImageBase64 dimensions aspectRatio quality =
     join [CHR 0x0A, CHR 0x0A]
       (promptLines e prompt attachedImageBase64 dimensions aspectRatio quality)"

text \<open>The parts of the request, in the order they are pushed.\<close>

definition request_parts ::
  "env \<Rightarrow> string \<Rightarrow> string \<Rightarrow> string \<Rightarrow> string option \<Rightarrow> string option \<Rightarrow> dims \<Rightarrow>
   string \<Rightarrow> string \<Rightarrow> part list" where
  "request_parts e base64ImageData mimeType prompt attachedImageBase64 attachedImageMimeType
     dimensions aspectRatio quality =
     [InlineData base64ImageData mimeType] @
     (if truthy_string attachedImageBase64 \<and> truthy_string attachedImageMimeType
      then [InlineData (the attachedImageBase64) (the attachedImageMimeType)] else []) @
     [Text (enhancedPrompt e prompt attachedImageBase64 dimensions aspectRatio quality)]"

text \<open>\<^verbatim>\<open>response.candidates?.[0]?.content?.parts || []\<close> and the loop over it, which returns the
  data of the first part that has \<^verbatim>\<open>inlineData\<close>.\<close>

definition first_candidate_parts :: "response \<Rightarrow> response_part list" where
  "first_candidate_parts r =
     (case r of
        None \<Rightarrow> []
      | Some [] \<Rightarrow> []
      | Some (c # cs) \<Rightarrow> (case c of None \<Rightarrow> [] | Some ps \<Rightarrow> ps))"

fun first_inlineData :: "response_part list \<Rightarrow> string option" where
  "first_inlineData [] = None"
| "first_inlineData (p # ps) =
     (case inlineData p of Some d \<Rightarrow> Some d | None \<Rightarrow> first_inlineData ps)"

definition safety_message :: string where
  "safety_message =
     ''A solicita'' @ ccedil @ atilde @ ''o foi bloqueada por configura'' @ ccedil @ otilde @
     ''es de seguran'' @ ccedil @ ''a. Por favor, modifique seu comando ou imagem.''"

definition no_image_message :: string where
  "no_image_message = ''Nenhuma imagem foi gerada na resposta.''"

definition api_key_message :: string where
  "api_key_message =
     ''A vari'' @ aacute @ ''vel de ambiente API_KEY n'' @ atilde @ ''o est'' @ aacute @
     '' definida.''"

text \<open>The \<^verbatim>\<open>catch\<close> block, lines 126 to 134.\<close>

definition catch_block :: "thrown \<Rightarrow> string promise" where
  "catch_block error =
     (case error of
        JsError message \<Rightarrow>
          if String_includes message ''SAFETY'' then Rejected (JsError safety_message)
          else Rejected error
      | NonError v \<Rightarrow> Rejected error)"

definition editImageWithPrompt ::
  "env \<Rightarrow> string \<Rightarrow> string \<Rightarrow> string \<Rightarrow> string option \<Rightarrow> string option \<Rightarrow> dims \<Rightarrow>
   string \<Rightarrow> string \<Rightarrow> dims option \<Rightarrow> string promise" where
  "editImageWithPrompt e base64ImageData mimeType prompt attachedImageBase64
     attachedImageMimeType dimensions aspectRatio quality attachedImageDimensions =
     (if \<not> API_KEY e then Rejected (JsError api_key_message)
      else
        (case generateContent e
                (request_parts e base64ImageData mimeType prompt attachedImageBase64
                   attachedImageMimeType dimensions aspectRatio quality) of
           Pending \<Rightarrow> Pending
         | Rejected error \<Rightarrow> catch_block error
         | Resolved response \<Rightarrow>
             (case first_inlineData (first_candidate_parts response) of
                Some d \<Rightarrow> Resolved d
              | None \<Rightarrow> catch_block (JsError no_image_message))))"

section \<open>Rasters and rectangles\<close>

text \<open>The result \<^verbatim>\<open>{ base64, dimensions }\<close> of a canvas helper.\<close>

record encoded =
  base64 :: string
  dimensions :: dims

text \<open>\<^verbatim>\<open>HistoryItem\<close>: the same two fields and \<^verbatim>\<open>url\<close>, \<^verbatim>\<open>mimeType\<close>.\<close>

record HistoryItem = encoded +
  url :: string
  mimeType :: string

text \<open>A rectangle \<^verbatim>\<open>{ x, y, width, height }\<close> of the crop, in display or native pixels.\<close>

record crop_rect =
  crop_x :: rat
  crop_y :: rat
  crop_width :: rat
  crop_height :: rat

text \<open>\<^verbatim>\<open>cropInteractionRef.current\<close>.\<close>

record crop_interaction =
  isDragging :: bool
  isResizing :: bool
  startX :: rat
  startY :: rat
  startCrop :: "crop_rect option"

section \<open>The canvas helpers\<close>

definition canvas_context_message :: string where
  "canvas_context_message =
     ''N'' @ atilde @ ''o foi poss'' @ iacute @ ''vel obter o contexto do canvas.''"

text \<open>\<^verbatim>\<open>cropImage\<close>, lines 51 to 107.\<close>

definition cropImage :: "env \<Rightarrow> string \<Rightarrow> crop_rect \<Rightarrow> encoded promise" where
  "cropImage e imageUrl pixelCrop =
     (case decode e imageUrl of
        None \<Rightarrow>
          Rejected (JsError (''Falha ao carregar a imagem para o recorte: [object Event]''))
      | Some loaded \<Rightarrow>
          if \<not> getContext e then Rejected (JsError canvas_context_message)
          else
            let cx = Math_round (crop_x pixelCrop);
                cy = Math_round (crop_y pixelCrop);
                cw = Math_round (crop_width pixelCrop);
                ch = Math_round (crop_height pixelCrop)
            in Resolved
                 \<lparr>base64 = toDataURL e (CropDrawing imageUrl cx cy cw ch),
                  dimensions = \<lparr>width = cw, height = ch\<rparr>\<rparr>)"

text \<open>The geometry of \<^verbatim>\<open>padImage\<close>, lines 123 to 143: the size of the new canvas and the
  offset at which the source is drawn.\<close>

record pad_layout =
  canvasWidth :: int
  canvasHeight :: int
  drawX :: int
  drawY :: int

definition padLayout :: "nat \<Rightarrow> nat \<Rightarrow> rat \<Rightarrow> pad_layout" where
  "padLayout image_width image_height targetAspectRatio =
     (let currentAspectRatio = rat_of_nat image_width / rat_of_nat image_height;
          (cw, ch, dx, dy) =
            (if currentAspectRatio > targetAspectRatio
             then (rat_of_nat image_width,
                   rat_of_nat image_width / targetAspectRatio,
                   0,
                   (rat_of_nat image_width / targetAspectRatio - rat_of_nat image_height) / 2)
             else (rat_of_nat image_height * targetAspectRatio,
                   rat_of_nat image_height,
                   (rat_of_nat image_height * targetAspectRatio - rat_of_nat image_width) / 2,
                   0))
      in \<lparr>canvasWidth = Math_round cw, canvasHeight = Math_round ch,
          drawX = Math_round dx, drawY = Math_round dy\<rparr>)"

definition data_png_url :: "string \<Rightarrow> string" where
  "data_png_url b = ''data:image/png;base64,'' @ b"

text \<open>\<^verbatim>\<open>padImage\<close>, lines 116 to 168.\<close>

definition padImage :: "env \<Rightarrow> string \<Rightarrow> rat \<Rightarrow> encoded promise" where
  "padImage e base64Image targetAspectRatio =
     (case decode e (data_png_url base64Image) of
        None \<Rightarrow>
          Rejected (JsError (''Falha ao carregar a imagem para o preenchimento: [object Event]''))
      | Some (image_width, image_height) \<Rightarrow>
          let l = padLayout image_width image_height targetAspectRatio
          in if \<not> getContext e then Rejected (JsError canvas_context_message)
             else Resolved
                    \<lparr>base64 = toDataURL e
                       (PadDrawing base64Image (drawX l) (drawY l) (canvasWidth l) (canvasHeight l)),
                     dimensions = \<lparr>width = canvasWidth l, height = canvasHeight l\<rparr>\<rparr>)"

section \<open>The application\<close>

text \<open>\<^verbatim>\<open>parseAspectRatio\<close>, lines 7 to 15.\<close>

definition parseAspectRatio :: "env \<Rightarrow> string \<Rightarrow> rat option" where
  "parseAspectRatio e ratioStr =
     (if ratioStr = ''original'' then None
      else
        (case split_colon ratioStr of
           [p0, p1] \<Rightarrow>
             (case (parseFloat e p0, parseFloat e p1) of
                (Some w, Some h) \<Rightarrow> if h = 0 then None else Some (w / h)
              | _ \<Rightarrow> None)
         | _ \<Rightarrow> None))"

text \<open>The state of the component: one field for each \<^verbatim>\<open>useState\<close>, and the interaction
  reference.\<close>

record app_state =
  history :: "HistoryItem list"
  activeHistoryIndex :: "nat option"
  prompt :: string
  isLoading :: bool
  error :: "string option"
  aspectRatio :: string
  quality :: string
  attachedImage :: "string option"
  attachedImageBase64 :: "string option"
  attachedImageMimeType :: "string option"
  attachedImageName :: "string option"
  attachedImageDimensions :: "dims option"
  crop :: "crop_rect option"
  isCropping :: bool
  cropInteractionRef :: crop_interaction

text \<open>\<^verbatim>\<open>currentImage\<close>, lines 54 to 57; an index outside the list reads \<^verbatim>\<open>undefined\<close>.\<close>

definition currentImage :: "app_state \<Rightarrow> HistoryItem option" where
  "currentImage s =
     (case activeHistoryIndex s of
        None \<Rightarrow> None
      | Some i \<Rightarrow> if i < length (history s) then Some (history s ! i) else None)"

definition removeAttachedImage :: "app_state \<Rightarrow> app_state" where
  "removeAttachedImage s =
     s\<lparr>attachedImage := None,
       attachedImageBase64 := None,
       attachedImageMimeType := None,
       attachedImageName := None,
       attachedImageDimensions := None,
       aspectRatio := (if aspectRatio s = ''reference'' then ''original'' else aspectRatio s)\<rparr>"

definition resetState :: "app_state \<Rightarrow> app_state" where
  "resetState s =
     removeAttachedImage
       (s\<lparr>history := [],
          activeHistoryIndex := None,
          error := None,
          crop := None,
          isCropping := False,
          prompt := [],
          aspectRatio := ''original'',
          quality := ''standard''\<rparr>)"

definition file_too_large_message :: string where
  "file_too_large_message = ''O tamanho do arquivo n'' @ atilde @ ''o pode exceder 4MB.''"

definition attached_too_large_message :: string where
  "attached_too_large_message =
     ''O tamanho do arquivo anexado n'' @ atilde @ ''o pode exceder 4MB.''"

text \<open>\<^verbatim>\<open>handleFileChange\<close>, lines 83 to 108. The history is set when the file has been read
  and the image has loaded; if either never happens the state stays as the reset left it.\<close>

definition handleFileChange :: "env \<Rightarrow> File option \<Rightarrow> app_state \<Rightarrow> app_state" where
  "handleFileChange e file s =
     (case file of
        None \<Rightarrow> s
      | Some f \<Rightarrow>
          if file_size f > 4 * 1024 * 1024 then s\<lparr>error := Some file_too_large_message\<rparr>
          else
            let s1 = resetState s;
                imageUrl = createObjectURL e f
            in (case readAsDataURL e f of
                  Resolved b \<Rightarrow>
                    (case decode e imageUrl of
                       Some (w, h) \<Rightarrow>
                         s1\<lparr>history :=
                              [\<lparr>base64 = b,
                                dimensions = \<lparr>width = int w, height = int h\<rparr>,
                                url = imageUrl,
                                mimeType = file_type f\<rparr>],
                            activeHistoryIndex := Some 0,
                            error := None\<rparr>
                     | None \<Rightarrow> s1)
                | _ \<Rightarrow> s1))"

text \<open>\<^verbatim>\<open>handleHistorySelect\<close>, lines 110 to 115.\<close>

definition handleHistorySelect :: "nat \<Rightarrow> app_state \<Rightarrow> app_state" where
  "handleHistorySelect index s =
     (if isLoading s then s
      else s\<lparr>activeHistoryIndex := Some index, crop := None, isCropping := False\<rparr>)"

text \<open>The target ratio as the effect and the click handler compute it (lines 119 to 124 and
  248 to 253), and as the pointer handler does (lines 347 to 352).\<close>

definition targetAspectRatio :: "env \<Rightarrow> app_state \<Rightarrow> rat option" where
  "targetAspectRatio e s =
     (case attachedImageDimensions s of
        Some d \<Rightarrow>
          if aspectRatio s = ''reference'' then Some (rat_of_int (width d) / rat_of_int (height d))
          else if aspectRatio s \<noteq> ''original'' then parseAspectRatio e (aspectRatio s)
          else None
      | None \<Rightarrow>
          if aspectRatio s \<noteq> ''original'' then parseAspectRatio e (aspectRatio s) else None)"

definition targetRatio :: "env \<Rightarrow> app_state \<Rightarrow> rat option" where
  "targetRatio e s =
     (case attachedImageDimensions s of
        Some d \<Rightarrow>
          if aspectRatio s = ''reference'' then Some (rat_of_int (width d) / rat_of_int (height d))
          else parseAspectRatio e (aspectRatio s)
      | None \<Rightarrow> parseAspectRatio e (aspectRatio s))"

text \<open>The box in which the image is rendered inside the container (contain fit), as
  computed in lines 130 to 139 and again in lines 225 to 233: rendered width and height.\<close>

definition rendered :: "rat \<times> rat \<Rightarrow> rat \<Rightarrow> rat \<Rightarrow> rat \<times> rat" where
  "rendered containerRect naturalWidth naturalHeight =
     (let originalRatio = naturalWidth / naturalHeight
      in if originalRatio > fst containerRect / snd containerRect
         then (fst containerRect, fst containerRect / originalRatio)
         else (snd containerRect * originalRatio, snd containerRect))"

text \<open>The effect that initialises the crop, lines 118 to 162.\<close>

definition cropEffect :: "env \<Rightarrow> app_state \<Rightarrow> app_state" where
  "cropEffect e s =
     (case (currentImage s, getBoundingClientRect e) of
        (Some cur, Some box) \<Rightarrow>
          if truthy_number (targetAspectRatio e s) then
            let t = the (targetAspectRatio e s);
                (renderedWidth, renderedHeight) =
                  rendered box (rat_of_int (width (dimensions cur)))
                    (rat_of_int (height (dimensions cur)));
                (cropWidth, cropHeight) =
                  (if t > renderedWidth / renderedHeight
                   then (renderedWidth, renderedWidth / t)
                   else (renderedHeight * t, renderedHeight))
            in s\<lparr>crop := Some \<lparr>crop_x = (renderedWidth - cropWidth) / 2,
                                crop_y = (renderedHeight - cropHeight) / 2,
                                crop_width = cropWidth,
                                crop_height = cropHeight\<rparr>,
                 isCropping := True\<rparr>
          else s\<lparr>crop := None, isCropping := False\<rparr>
      | _ \<Rightarrow> s\<lparr>crop := None, isCropping := False\<rparr>)"

text \<open>\<^verbatim>\<open>handleAttachedFileChange\<close>, lines 165 to 186.\<close>

definition handleAttachedFileChange :: "env \<Rightarrow> File option \<Rightarrow> app_state \<Rightarrow> app_state" where
  "handleAttachedFileChange e file s =
     (case file of
        None \<Rightarrow> s
      | Some f \<Rightarrow>
          if file_size f > 4 * 1024 * 1024 then s\<lparr>error := Some attached_too_large_message\<rparr>
          else
            let imageUrl = createObjectURL e f;
                s1 = s\<lparr>attachedImageName := Some (file_name f),
                       attachedImage := Some imageUrl\<rparr>;
                s2 = (case decode e imageUrl of
                        Some (w, h) \<Rightarrow>
                          s1\<lparr>attachedImageDimensions :=
                               Some \<lparr>width = int w, height = int h\<rparr>\<rparr>
                      | None \<Rightarrow> s1)
            in (case readAsDataURL e f of
                  Resolved b \<Rightarrow>
                    s2\<lparr>attachedImageBase64 := Some b,
                       attachedImageMimeType := Some (file_type f)\<rparr>
                | _ \<Rightarrow> s2))"

text \<open>The crop in native pixels, lines 221 to 244.\<close>

definition pixelCrop :: "env \<Rightarrow> nat \<times> nat \<Rightarrow> crop_rect \<Rightarrow> crop_rect" where
  "pixelCrop e natural c =
     (let naturalWidth = rat_of_nat (fst natural);
          naturalHeight = rat_of_nat (snd natural);
          (renderedWidth, renderedHeight) =
            (case getBoundingClientRect e of
               None \<Rightarrow> (naturalWidth, naturalHeight)
             | Some box \<Rightarrow> rendered box naturalWidth naturalHeight);
          scaleX = naturalWidth / renderedWidth;
          scaleY = naturalHeight / renderedHeight
      in \<lparr>crop_x = crop_x c * scaleX,
          crop_y = crop_y c * scaleY,
          crop_width = crop_width c * scaleX,
          crop_height = crop_height c * scaleY\<rparr>)"

text \<open>The image that is sent, lines 212 to 266: its Base64 text, MIME type and dimensions.
  Waiting for \<^verbatim>\<open>imageEl.onload\<close> never ends when the image does not load.\<close>

definition imageToSend ::
  "env \<Rightarrow> app_state \<Rightarrow> HistoryItem \<Rightarrow> (string \<times> string \<times> dims) promise" where
  "imageToSend e s cur =
     (case crop s of
        Some c \<Rightarrow>
          if isCropping s \<and> url cur \<noteq> [] then
            (case decode e (url cur) of
               None \<Rightarrow> Pending
             | Some natural \<Rightarrow>
                 (case cropImage e (url cur) (pixelCrop e natural c) of
                    Pending \<Rightarrow> Pending
                  | Rejected err \<Rightarrow> Rejected err
                  | Resolved cropped \<Rightarrow>
                      if truthy_number (targetAspectRatio e s) then
                        (case padImage e (base64 cropped) (the (targetAspectRatio e s)) of
                           Pending \<Rightarrow> Pending
                         | Rejected err \<Rightarrow> Rejected err
                         | Resolved padded \<Rightarrow>
                             Resolved (base64 padded, ''image/png'', dimensions padded))
                      else
                        (case cropImage e (url cur) (pixelCrop e natural c) of
                           Pending \<Rightarrow> Pending
                         | Rejected err \<Rightarrow> Rejected err
                         | Resolved safeCropped \<Rightarrow>
                             Resolved (base64 safeCropped, ''image/png'',
                                       dimensions safeCropped))))
          else Resolved (base64 cur, mimeType cur, dimensions cur)
      | None \<Rightarrow> Resolved (base64 cur, mimeType cur, dimensions cur))"

definition missing_input_message :: string where
  "missing_input_message = ''Por favor, carregue uma imagem e insira um comando.''"

text \<open>\<^verbatim>\<open>err.message || 'Ocorreu um erro desconhecido.'\<close>.\<close>

definition error_text :: "thrown \<Rightarrow> string" where
  "error_text err =
     (case err of
        JsError m \<Rightarrow> if m \<noteq> [] then m else ''Ocorreu um erro desconhecido.''
      | NonError v \<Rightarrow> ''Ocorreu um erro desconhecido.'')"

text \<open>\<^verbatim>\<open>handleGenerateClick\<close>, lines 202 to 302. A promise that stays pending leaves the
  handler suspended, with \<^verbatim>\<open>isLoading\<close> set; a result that does not load as an image
  leaves the history as it is.\<close>

definition handleGenerateClick :: "env \<Rightarrow> app_state \<Rightarrow> app_state" where
  "handleGenerateClick e s =
     (case currentImage s of
        None \<Rightarrow> s\<lparr>error := Some missing_input_message\<rparr>
      | Some cur \<Rightarrow>
          if prompt s = [] then s\<lparr>error := Some missing_input_message\<rparr>
          else
            let s1 = s\<lparr>isLoading := True, error := None\<rparr>
            in (case imageToSend e s cur of
                  Pending \<Rightarrow> s1
                | Rejected err \<Rightarrow> s1\<lparr>error := Some (error_text err), isLoading := False\<rparr>
                | Resolved (b, m, d) \<Rightarrow>
                    (case editImageWithPrompt e b m (prompt s) (attachedImageBase64 s)
                            (attachedImageMimeType s) d (aspectRatio s) (quality s)
                            (attachedImageDimensions s) of
                       Pending \<Rightarrow> s1
                     | Rejected err \<Rightarrow>
                         s1\<lparr>error := Some (error_text err), isLoading := False\<rparr>
                     | Resolved resultBase64 \<Rightarrow>
                         (case decode e (data_png_url resultBase64) of
                            None \<Rightarrow> s1\<lparr>isLoading := False\<rparr>
                          | Some (w, h) \<Rightarrow>
                              let newHistory =
                                    take (the (activeHistoryIndex s) + 1) (history s)
                              in s1\<lparr>isLoading := False,
                                    history :=
                                      newHistory @
                                      [\<lparr>base64 = resultBase64,
                                        dimensions = \<lparr>width = int w, height = int h\<rparr>,
                                        url = data_png_url resultBase64,
                                        mimeType = ''image/png''\<rparr>],
                                    activeHistoryIndex := Some (length newHistory)\<rparr>))))"

text \<open>\<^verbatim>\<open>handleCropMouseDown\<close>, lines 311 to 336: the pointer position and the crop are
  recorded in the interaction reference.\<close>

definition handleCropMouseDown :: "env \<Rightarrow> rat \<times> rat \<Rightarrow> bool \<Rightarrow> app_state \<Rightarrow> app_state" where
  "handleCropMouseDown e client resizing s =
     (case (crop s, getBoundingClientRect e) of
        (Some c, Some box) \<Rightarrow>
          s\<lparr>cropInteractionRef :=
              \<lparr>isDragging = \<not> resizing, isResizing = resizing,
               startX = fst client, startY = snd client, startCrop = Some c\<rparr>\<rparr>
      | _ \<Rightarrow> s)"

text \<open>The clamp at the end of \<^verbatim>\<open>handleCropMouseMove\<close>, lines 376 to 380.\<close>

definition clamp_and_set :: "rat \<times> rat \<Rightarrow> crop_rect \<Rightarrow> app_state \<Rightarrow> app_state" where
  "clamp_and_set containerRect newCrop s =
     s\<lparr>crop := Some
         (newCrop\<lparr>crop_x := max 0 (min (crop_x newCrop) (fst containerRect - crop_width newCrop)),
                  crop_y := max 0 (min (crop_y newCrop)
                                       (snd containerRect - crop_height newCrop))\<rparr>)\<rparr>"

text \<open>The width and height that a resize by \<open>dx\<close> asks for, lines 358 to 368: the start
  width grown by \<open>dx\<close>, the height that the ratio gives, both cut back where the far edge
  would pass the right or the bottom side of the container box.\<close>

definition resized :: "rat \<times> rat \<Rightarrow> crop_rect \<Rightarrow> rat \<Rightarrow> rat \<Rightarrow> rat \<times> rat" where
  "resized containerRect sc r dx =
     (let newWidth = crop_width sc + dx;
          newHeight = newWidth / r;
          (newWidth, newHeight) =
            (if crop_x sc + newWidth > fst containerRect
             then (fst containerRect - crop_x sc, (fst containerRect - crop_x sc) / r)
             else (newWidth, newHeight));
          (newWidth, newHeight) =
            (if crop_y sc + newHeight > snd containerRect
             then ((snd containerRect - crop_y sc) * r, snd containerRect - crop_y sc)
             else (newWidth, newHeight))
      in (newWidth, newHeight))"

text \<open>\<^verbatim>\<open>handleCropMouseMove\<close>, lines 338 to 381. The second argument is the position of the
  pointer, the third the box of the container taken when the button went down.\<close>

definition handleCropMouseMove ::
  "env \<Rightarrow> rat \<times> rat \<Rightarrow> rat \<times> rat \<Rightarrow> app_state \<Rightarrow> app_state" where
  "handleCropMouseMove e client containerRect s =
     (let i = cropInteractionRef s
      in case startCrop i of
           None \<Rightarrow> s
         | Some sc \<Rightarrow>
             if \<not> isDragging i \<and> \<not> isResizing i then s
             else
               let dx = fst client - startX i;
                   dy = snd client - startY i
               in if isDragging i then
                    clamp_and_set containerRect
                      (sc\<lparr>crop_x := crop_x sc + dx, crop_y := crop_y sc + dy\<rparr>) s
                  else if isResizing i \<and> truthy_number (targetRatio e s) then
                    let (newWidth, newHeight) =
                          resized containerRect sc (the (targetRatio e s)) dx
                    in if newWidth < 20 \<or> newHeight < 20 then s
                       else clamp_and_set containerRect
                              (sc\<lparr>crop_width := newWidth, crop_height := newHeight\<rparr>) s
                  else clamp_and_set containerRect sc s)"

section \<open>The compiled prompt as the specification describes it\<close>




section \<open>Sample inputs\<close>

text \<open>Lower case of the ASCII letters, as \<^verbatim>\<open>toLowerCase\<close> acts on ASCII text.\<close>

definition ascii_lower :: "string \<Rightarrow> string" where
  "ascii_lower t =
     map (\<lambda>c. if 65 \<le> (of_char c :: nat) \<and> (of_char c :: nat) \<le> 90
              then char_of ((of_char c :: nat) + 32) else c) t"

text \<open>A browser with a container of 320 by 180 pixels in which every image decodes to the
  given size, and a service that answers with one image.\<close>

definition sample_env :: "nat \<times> nat \<Rightarrow> env" where
  "sample_env size_of_images =
     \<lparr>decode = (\<lambda>u. Some size_of_images),
      getContext = True,
      toDataURL = (\<lambda>d. ''cG5n''),
      getBoundingClientRect = Some (320, 180),
      parseFloat = (\<lambda>t. None),
      toLowerCase = ascii_lower,
      API_KEY = True,
      generateContent = (\<lambda>ps. Resolved (Some [Some [\<lparr>inlineData = Some ''RA==''\<rparr>]])),
      createObjectURL = (\<lambda>f. ''blob:'' @ file_name f),
      readAsDataURL = (\<lambda>f. Resolved ''QUJD'')\<rparr>"

text \<open>The state of the component when it is mounted with nothing stored.\<close>

definition initial_state :: app_state where
  "initial_state =
     \<lparr>history = [],
      activeHistoryIndex = None,
      prompt = [],
      isLoading = False,
      error = None,
      aspectRatio = ''original'',
      quality = ''standard'',
      attachedImage = None,
      attachedImageBase64 = None,
      attachedImageMimeType = None,
      attachedImageName = None,
      attachedImageDimensions = None,
      crop = None,
      isCropping = False,
      cropInteractionRef =
        \<lparr>isDragging = False, isResizing = False, startX = 0, startY = 0, startCrop = None\<rparr>\<rparr>"

text \<open>A version of the given size whose payload is the given text.\<close>

definition version :: "string \<Rightarrow> int \<Rightarrow> int \<Rightarrow> HistoryItem" where
  "version b w h =
     \<lparr>base64 = b, dimensions = \<lparr>width = w, height = h\<rparr>,
      url = data_png_url b, mimeType = ''image/png''\<rparr>"

text \<open>A session with one version of the given size, active, and a reference image of the
  given size whose ratio is the one selected.\<close>

definition sample_session :: "int \<times> int \<Rightarrow> int \<times> int \<Rightarrow> app_state" where
  "sample_session size_of_version size_of_reference =
     initial_state
       \<lparr>history := [version ''QQ=='' (fst size_of_version) (snd size_of_version)],
        activeHistoryIndex := Some 0,
        prompt := ''mais luz'',
        aspectRatio := ''reference'',
        attachedImage := Some ''blob:ref'',
        attachedImageBase64 := Some ''UkVG'',
        attachedImageMimeType := Some ''image/png'',
        attachedImageName := Some ''ref.png'',
        attachedImageDimensions :=
          Some \<lparr>width = fst size_of_reference, height = snd size_of_reference\<rparr>\<rparr>"

text \<open>A browser in which the source \<^verbatim>\<open>c3Jj\<close> decodes to the first size and every other
  image to the second.\<close>

definition sample_env2 :: "nat \<times> nat \<Rightarrow> nat \<times> nat \<Rightarrow> env" where
  "sample_env2 size_of_source size_of_others =
     (sample_env size_of_others)
       \<lparr>decode := (\<lambda>u. if u = data_png_url ''c3Jj'' then Some size_of_source
                        else Some size_of_others)\<rparr>"

section \<open>The history\<close>

lemma currentImage_Some:
  "activeHistoryIndex s = Some i \<Longrightarrow> i < length (history s) \<Longrightarrow>
   currentImage s = Some (history s ! i)"
  by (simp add: currentImage_def)

text \<open>
  Claim C1. When an edit made from the active entry \<open>i\<close> succeeds (the prompt is not empty,
  the image to send is ready, the remote call resolves with \<open>r\<close> and \<open>r\<close> loads as an image),
  the entries after \<open>i\<close> are dropped, the result is appended and becomes the active entry:
  the new history is the first \<open>i + 1\<close> entries followed by the result, and the active index
  is \<open>i + 1\<close>.
\<close>

theorem generate_branches_history:
  assumes p: "prompt s \<noteq> []"
    and a: "activeHistoryIndex s = Some i"
    and i: "i < length (history s)"
    and img: "imageToSend e s (history s ! i) = Resolved (b, m, d)"
    and edit: "editImageWithPrompt e b m (prompt s) (attachedImageBase64 s)
                 (attachedImageMimeType s) d (aspectRatio s) (quality s)
                 (attachedImageDimensions s) = Resolved r"
    and dec: "decode e (data_png_url r) = Some (w, h)"
  shows "history (handleGenerateClick e s) =
           take (i + 1) (history s) @
           [\<lparr>base64 = r, dimensions = \<lparr>width = int w, height = int h\<rparr>,
             url = data_png_url r, mimeType = ''image/png''\<rparr>]
         \<and> activeHistoryIndex (handleGenerateClick e s) = Some (i + 1)"
proof -
  have len: "length (take (i + 1) (history s)) = i + 1" using i by simp
  show ?thesis
    unfolding handleGenerateClick_def
    using p img edit dec len
    by (simp add: currentImage_Some [OF a i] a Let_def)
qed

text \<open>The example of the specification: with the history A, B, C the entry B is selected;
  the edit D gives A, B, D with D active, and C is gone.\<close>

theorem generate_branches_history_witness:
  "history (handleGenerateClick (sample_env (64, 64))
      (handleHistorySelect 1
        (initial_state\<lparr>history := [version ''A'' 64 64, version ''B'' 64 64, version ''C'' 64 64],
                        activeHistoryIndex := Some 2, prompt := ''mais luz''\<rparr>)))
     = [version ''A'' 64 64, version ''B'' 64 64, version ''RA=='' 64 64]
   \<and> activeHistoryIndex (handleGenerateClick (sample_env (64, 64))
      (handleHistorySelect 1
        (initial_state\<lparr>history := [version ''A'' 64 64, version ''B'' 64 64, version ''C'' 64 64],
                        activeHistoryIndex := Some 2, prompt := ''mais luz''\<rparr>))) = Some 2"
proof -
  let ?s = "initial_state\<lparr>history := [version ''A'' 64 64, version ''B'' 64 64, version ''C'' 64 64],
                          activeHistoryIndex := Some 1, prompt := ''mais luz''\<rparr>"
  have sel: "handleHistorySelect 1
      (initial_state\<lparr>history := [version ''A'' 64 64, version ''B'' 64 64, version ''C'' 64 64],
                      activeHistoryIndex := Some 2, prompt := ''mais luz''\<rparr>) = ?s"
    by (simp add: handleHistorySelect_def initial_state_def)
  have "history (handleGenerateClick (sample_env (64, 64)) ?s)
          = [version ''A'' 64 64, version ''B'' 64 64, version ''RA=='' 64 64]
      \<and> activeHistoryIndex (handleGenerateClick (sample_env (64, 64)) ?s) = Some 2"
    using generate_branches_history
      [of ?s 1 "sample_env (64, 64)" "''B''" "''image/png''" "\<lparr>width = 64, height = 64\<rparr>"
          "''RA==''" 64 64]
    by (simp add: initial_state_def sample_env_def version_def imageToSend_def
        editImageWithPrompt_def first_candidate_parts_def)
  then show ?thesis by (simp only: sel)
qed

text \<open>Every kind of failure of an attempt ends with the error message set: a missing image
  or prompt, a rejection while the image to send is prepared (the image does not decode, no
  canvas context), and a rejection of the remote call (safety block, no image in the
  response, transport error).\<close>

lemma failures_set_error:
  "currentImage s = None \<Longrightarrow> error (handleGenerateClick e s) \<noteq> None"
  "prompt s = [] \<Longrightarrow> error (handleGenerateClick e s) \<noteq> None"
  "currentImage s = Some cur \<Longrightarrow> prompt s \<noteq> [] \<Longrightarrow> imageToSend e s cur = Rejected err \<Longrightarrow>
     error (handleGenerateClick e s) = Some (error_text err)"
  "currentImage s = Some cur \<Longrightarrow> prompt s \<noteq> [] \<Longrightarrow>
     imageToSend e s cur = Resolved (b, m, d) \<Longrightarrow>
     editImageWithPrompt e b m (prompt s) (attachedImageBase64 s)
       (attachedImageMimeType s) d (aspectRatio s) (quality s)
       (attachedImageDimensions s) = Rejected err \<Longrightarrow>
     error (handleGenerateClick e s) = Some (error_text err)"
  unfolding handleGenerateClick_def
  by (auto simp: Let_def split: option.splits)

text \<open>
  Claim C9. An attempt that ends with an error leaves the history and the active index as
  they were before the attempt.
\<close>

theorem failed_generate_keeps_history:
  assumes "error (handleGenerateClick e s) \<noteq> None"
  shows "history (handleGenerateClick e s) = history s
       \<and> activeHistoryIndex (handleGenerateClick e s) = activeHistoryIndex s"
  using assms unfolding handleGenerateClick_def
  by (auto simp: Let_def split: option.splits promise.splits prod.splits if_splits)

text \<open>An attempt that the service blocks: the message is set, the three versions and the
  active index stay.\<close>

theorem failed_generate_keeps_history_witness:
  "error (handleGenerateClick
      ((sample_env (64, 64))\<lparr>generateContent := (\<lambda>ps. Rejected (JsError ''blocked: SAFETY''))\<rparr>)
      (initial_state\<lparr>history := [version ''A'' 64 64, version ''B'' 64 64, version ''C'' 64 64],
                      activeHistoryIndex := Some 1, prompt := ''mais luz''\<rparr>)) \<noteq> None
   \<and> history (handleGenerateClick
      ((sample_env (64, 64))\<lparr>generateContent := (\<lambda>ps. Rejected (JsError ''blocked: SAFETY''))\<rparr>)
      (initial_state\<lparr>history := [version ''A'' 64 64, version ''B'' 64 64, version ''C'' 64 64],
                      activeHistoryIndex := Some 1, prompt := ''mais luz''\<rparr>))
     = [version ''A'' 64 64, version ''B'' 64 64, version ''C'' 64 64]
   \<and> activeHistoryIndex (handleGenerateClick
      ((sample_env (64, 64))\<lparr>generateContent := (\<lambda>ps. Rejected (JsError ''blocked: SAFETY''))\<rparr>)
      (initial_state\<lparr>history := [version ''A'' 64 64, version ''B'' 64 64, version ''C'' 64 64],
                      activeHistoryIndex := Some 1, prompt := ''mais luz''\<rparr>)) = Some 1"
proof -
  let ?e = "(sample_env (64, 64))\<lparr>generateContent := (\<lambda>ps. Rejected (JsError ''blocked: SAFETY''))\<rparr>"
  let ?s = "initial_state\<lparr>history := [version ''A'' 64 64, version ''B'' 64 64, version ''C'' 64 64],
                      activeHistoryIndex := Some 1, prompt := ''mais luz''\<rparr>"
  have err: "error (handleGenerateClick ?e ?s) \<noteq> None"
    by (simp add: handleGenerateClick_def currentImage_def initial_state_def sample_env_def
        imageToSend_def editImageWithPrompt_def catch_block_def version_def)
  have "history ?s = [version ''A'' 64 64, version ''B'' 64 64, version ''C'' 64 64]"
    and "activeHistoryIndex ?s = Some 1"
    by (simp_all add: initial_state_def)
  with err failed_generate_keeps_history [OF err] show ?thesis by simp
qed

text \<open>The other attempts that do not succeed: a handler left suspended by a promise that
  never settles, and a result that does not load as an image. The history changes only when
  every step has succeeded.\<close>

lemma history_changes_only_on_success:
  assumes "history (handleGenerateClick e s) \<noteq> history s
         \<or> activeHistoryIndex (handleGenerateClick e s) \<noteq> activeHistoryIndex s"
  shows "\<exists>cur b m d r w h.
           currentImage s = Some cur \<and> prompt s \<noteq> []
         \<and> imageToSend e s cur = Resolved (b, m, d)
         \<and> editImageWithPrompt e b m (prompt s) (attachedImageBase64 s)
              (attachedImageMimeType s) d (aspectRatio s) (quality s)
              (attachedImageDimensions s) = Resolved r
         \<and> decode e (data_png_url r) = Some (w, h)"
  using assms unfolding handleGenerateClick_def
  by (auto simp: Let_def split: option.splits promise.splits prod.splits if_splits)

section \<open>Uploads over the size limit\<close>

text \<open>
  Claim C10. A primary or reference file of more than 4 MiB changes nothing but the error
  message: the handler returns the state it was given with the message set, so the
  history, the active index, the prompt, the aspect ratio, the quality, the crop and the
  attached image are as before, and the reset of a valid upload does not happen.
\<close>

theorem oversized_file_sets_only_error:
  assumes "4 * 1024 * 1024 < file_size f"
  shows "handleFileChange e (Some f) s = s\<lparr>error := Some file_too_large_message\<rparr>
       \<and> handleAttachedFileChange e (Some f) s = s\<lparr>error := Some attached_too_large_message\<rparr>"
  using assms by (simp add: handleFileChange_def handleAttachedFileChange_def)

text \<open>A file of 5,000,000 bytes dropped on a session with one version and a prompt.\<close>

theorem oversized_file_sets_only_error_witness:
  "4 * 1024 * 1024 < file_size \<lparr>file_name = ''big.png'', file_size = 5000000, file_type = ''image/png''\<rparr>
   \<and> handleFileChange (sample_env (64, 64))
        (Some \<lparr>file_name = ''big.png'', file_size = 5000000, file_type = ''image/png''\<rparr>)
        (initial_state\<lparr>history := [version ''A'' 64 64], activeHistoryIndex := Some 0,
                        prompt := ''mais luz''\<rparr>)
      = initial_state\<lparr>history := [version ''A'' 64 64], activeHistoryIndex := Some 0,
                        prompt := ''mais luz'', error := Some file_too_large_message\<rparr>
   \<and> handleAttachedFileChange (sample_env (64, 64))
        (Some \<lparr>file_name = ''big.png'', file_size = 5000000, file_type = ''image/png''\<rparr>)
        (initial_state\<lparr>history := [version ''A'' 64 64], activeHistoryIndex := Some 0,
                        prompt := ''mais luz''\<rparr>)
      = initial_state\<lparr>history := [version ''A'' 64 64], activeHistoryIndex := Some 0,
                        prompt := ''mais luz'', error := Some attached_too_large_message\<rparr>"
  using oversized_file_sets_only_error
    [of "\<lparr>file_name = ''big.png'', file_size = 5000000, file_type = ''image/png''\<rparr>"
        "sample_env (64, 64)"
        "initial_state\<lparr>history := [version ''A'' 64 64], activeHistoryIndex := Some 0,
                        prompt := ''mais luz''\<rparr>"]
  by simp

text \<open>For contrast, a file within the limit resets the session before anything is read.\<close>

lemma valid_upload_resets:
  "file_size f \<le> 4 * 1024 * 1024 \<Longrightarrow> readAsDataURL e f = Pending \<Longrightarrow>
   handleFileChange e (Some f) s = resetState s"
  by (simp add: handleFileChange_def)

section \<open>Failures of the remote call\<close>

lemma startsWith_iff: "startsWith s k \<longleftrightarrow> (\<exists>post. s = k @ post)"
  by (induction s k rule: startsWith.induct) auto

lemma String_includes_iff: "String_includes s k \<longleftrightarrow> (\<exists>pre post. s = pre @ k @ post)"
proof (induction s)
  case Nil
  then show ?case by simp
next
  case (Cons c cs)
  have "(\<exists>pre post. c # cs = pre @ k @ post) \<longleftrightarrow>
        (\<exists>post. c # cs = k @ post) \<or> (\<exists>pre post. cs = pre @ k @ post)"
    by (auto simp: Cons_eq_append_conv)
  then show ?case using Cons by (simp add: startsWith_iff)
qed

text \<open>
  Claim C8. When the remote call throws, the operation is rejected with the dedicated
  safety error if the value thrown is an \<^verbatim>\<open>Error\<close> whose message contains \<^verbatim>\<open>SAFETY\<close> at any
  position, and is rejected with the very value thrown in every other case.
\<close>

theorem safety_failure_mapping:
  assumes key: "API_KEY e"
    and fail: "generateContent e (request_parts e b m p ab am d ar q) = Rejected err"
  shows "editImageWithPrompt e b m p ab am d ar q ad =
           (if \<exists>pre post. err = JsError (pre @ ''SAFETY'' @ post)
            then Rejected (JsError safety_message) else Rejected err)"
  using key fail
  by (cases err) (auto simp: editImageWithPrompt_def catch_block_def String_includes_iff)

text \<open>A blocked request gives the safety error; a transport error comes back as it is.\<close>

theorem safety_failure_mapping_witness:
  "editImageWithPrompt
     ((sample_env (64, 64))\<lparr>generateContent := (\<lambda>ps. Rejected (JsError ''blocked: SAFETY''))\<rparr>)
     ''QQ=='' ''image/png'' ''mais luz'' None None \<lparr>width = 64, height = 64\<rparr>
     ''original'' ''standard'' None = Rejected (JsError safety_message)
   \<and> editImageWithPrompt
     ((sample_env (64, 64))\<lparr>generateContent := (\<lambda>ps. Rejected (JsError ''fetch failed''))\<rparr>)
     ''QQ=='' ''image/png'' ''mais luz'' None None \<lparr>width = 64, height = 64\<rparr>
     ''original'' ''standard'' None = Rejected (JsError ''fetch failed'')"
proof -
  let ?e1 = "(sample_env (64, 64))\<lparr>generateContent := (\<lambda>ps. Rejected (JsError ''blocked: SAFETY''))\<rparr>"
  let ?e2 = "(sample_env (64, 64))\<lparr>generateContent := (\<lambda>ps. Rejected (JsError ''fetch failed''))\<rparr>"
  have k: "API_KEY ?e1" "API_KEY ?e2" by (simp_all add: sample_env_def)
  have yes: "\<exists>pre post. JsError ''blocked: SAFETY'' = JsError (pre @ ''SAFETY'' @ post)"
    by (rule exI [of _ "''blocked: ''"], rule exI [of _ "[]"]) simp
  have "\<not> String_includes ''fetch failed'' ''SAFETY''" by simp
  then have no: "\<not> (\<exists>pre post. JsError ''fetch failed'' = JsError (pre @ ''SAFETY'' @ post))"
    by (simp add: String_includes_iff)
  show ?thesis
    using safety_failure_mapping [of ?e1 "''QQ==''" "''image/png''" "''mais luz''" None None
        "\<lparr>width = 64, height = 64\<rparr>" "''original''" "''standard''"
        "JsError ''blocked: SAFETY''" None, OF k(1)]
      safety_failure_mapping [of ?e2 "''QQ==''" "''image/png''" "''mais luz''" None None
        "\<lparr>width = 64, height = 64\<rparr>" "''original''" "''standard''"
        "JsError ''fetch failed''" None, OF k(2)]
      yes no
    by simp
qed

text \<open>A response without an image is a failure raised inside the same \<^verbatim>\<open>try\<close>; its message
  has no marker, so it reaches the caller unchanged.\<close>

lemma no_safety_marker: "\<not> String_includes no_image_message ''SAFETY''"
  by (simp add: no_image_message_def)

lemma no_image_is_rejected:
  assumes "API_KEY e"
    and "generateContent e (request_parts e b m p ab am d ar q) = Resolved resp"
    and "first_inlineData (first_candidate_parts resp) = None"
  shows "editImageWithPrompt e b m p ab am d ar q ad = Rejected (JsError no_image_message)"
  using assms by (simp add: editImageWithPrompt_def catch_block_def no_safety_marker)

section \<open>The compiled prompt\<close>








section \<open>Rounding\<close>

lemma Math_round_of_int: "Math_round (of_int n) = n"
  unfolding Math_round_def by linarith

lemma Math_round_of_nat: "Math_round (of_nat n) = int n"
  using Math_round_of_int [of "int n"] by simp

lemma Math_round_mono: "a \<le> b \<Longrightarrow> Math_round a \<le> Math_round b"
  unfolding Math_round_def by (simp add: floor_mono)

lemma Math_round_eq_iff: "Math_round v = n \<longleftrightarrow> of_int n - 1 / 2 \<le> v \<and> v < of_int n + 1 / 2"
  unfolding Math_round_def floor_eq_iff by auto

lemma Math_round_upper: "of_int (Math_round v) \<le> v + 1 / 2"
  unfolding Math_round_def by linarith


lemma Math_round_zero: "Math_round 0 = 0"
  using Math_round_of_int [of 0] by simp







section \<open>Padding to a target ratio\<close>

lemma padLayout_wide:
  "rat_of_nat w / rat_of_nat h > t \<Longrightarrow>
   padLayout w h t = \<lparr>canvasWidth = int w, canvasHeight = Math_round (rat_of_nat w / t),
      drawX = 0, drawY = Math_round ((rat_of_nat w / t - rat_of_nat h) / 2)\<rparr>"
  by (simp add: padLayout_def Math_round_of_nat Math_round_zero)

lemma padLayout_narrow:
  "\<not> rat_of_nat w / rat_of_nat h > t \<Longrightarrow>
   padLayout w h t = \<lparr>canvasWidth = Math_round (rat_of_nat h * t), canvasHeight = int h,
      drawX = Math_round ((rat_of_nat h * t - rat_of_nat w) / 2), drawY = 0\<rparr>"
  by (simp add: padLayout_def Math_round_of_nat Math_round_zero)




text \<open>What a second padding does to the output of a first one, on the two branches.\<close>

lemma repad_after_rows:
  assumes pos: "0 < w" "0 < h" "0 < t"
    and wide: "rat_of_nat w / rat_of_nat h > t"
  defines "H \<equiv> Math_round (rat_of_nat w / t)"
  shows "int h \<le> H"
    and "canvasHeight (padLayout w (nat H) t) = H"
    and "t \<le> 1 \<Longrightarrow> canvasWidth (padLayout w (nat H) t) = int w"
proof -
  have wt: "rat_of_nat h < rat_of_nat w / t"
    using wide pos by (simp add: field_simps)
  have "Math_round (rat_of_nat h) \<le> Math_round (rat_of_nat w / t)"
    using wt by (intro Math_round_mono) simp
  then show hH: "int h \<le> H" by (simp add: H_def Math_round_of_nat)
  have Hpos: "0 < H" using hH pos by simp
  have Hnat: "rat_of_nat (nat H) = rat_of_int H" "int (nat H) = H" using Hpos by simp_all
  have up: "rat_of_int H \<le> rat_of_nat w / t + 1 / 2"
    unfolding H_def by (rule Math_round_upper)
  show "canvasHeight (padLayout w (nat H) t) = H"
  proof (cases "rat_of_nat w / rat_of_nat (nat H) > t")
    case True
    then show ?thesis by (simp add: padLayout_wide H_def)
  next
    case False
    then show ?thesis using Hpos by (simp add: padLayout_narrow)
  qed
  show "canvasWidth (padLayout w (nat H) t) = int w" if t1: "t \<le> 1"
  proof (cases "rat_of_nat w / rat_of_nat (nat H) > t")
    case True
    then show ?thesis by (simp add: padLayout_wide)
  next
    case False
    then have lo: "rat_of_nat w \<le> rat_of_int H * t"
      using Hpos by (simp add: Hnat field_simps)
    have hi: "rat_of_int H * t < rat_of_nat w + 1 / 2"
    proof (cases "t = 1")
      case True
      then have "H = int w" by (simp add: H_def Math_round_of_nat)
      then show ?thesis using True by simp
    next
      case False
      then have "t < 1" using t1 by simp
      have "rat_of_int H * t \<le> (rat_of_nat w / t + 1 / 2) * t"
        using up pos by (simp add: mult_right_mono)
      also have "\<dots> = rat_of_nat w + t / 2" using pos by (simp add: field_simps)
      also have "\<dots> < rat_of_nat w + 1 / 2" using \<open>t < 1\<close> by simp
      finally show ?thesis .
    qed
    have "Math_round (rat_of_int H * t) = int w"
      unfolding Math_round_eq_iff using lo hi by simp
    with False show ?thesis by (simp add: padLayout_narrow Hnat)
  qed
qed

lemma repad_after_columns:
  assumes pos: "0 < w" "0 < h" "0 < t"
    and narrow: "\<not> rat_of_nat w / rat_of_nat h > t"
  defines "W \<equiv> Math_round (rat_of_nat h * t)"
  shows "int w \<le> W"
    and "canvasWidth (padLayout (nat W) h t) = W"
    and "1 \<le> t \<Longrightarrow> canvasHeight (padLayout (nat W) h t) = int h"
proof -
  have ht: "rat_of_nat w \<le> rat_of_nat h * t"
    using narrow pos by (simp add: field_simps not_less)
  have "Math_round (rat_of_nat w) \<le> Math_round (rat_of_nat h * t)"
    using ht by (rule Math_round_mono)
  then show wW: "int w \<le> W" by (simp add: W_def Math_round_of_nat)
  have Wpos: "0 < W" using wW pos by simp
  have Wnat: "rat_of_nat (nat W) = rat_of_int W" "int (nat W) = W" using Wpos by simp_all
  have up: "rat_of_int W \<le> rat_of_nat h * t + 1 / 2"
    unfolding W_def by (rule Math_round_upper)
  show "canvasWidth (padLayout (nat W) h t) = W"
  proof (cases "rat_of_nat (nat W) / rat_of_nat h > t")
    case True
    then show ?thesis using Wpos by (simp add: padLayout_wide)
  next
    case False
    then show ?thesis by (simp add: padLayout_narrow W_def)
  qed
  show "canvasHeight (padLayout (nat W) h t) = int h" if t1: "1 \<le> t"
  proof (cases "rat_of_nat (nat W) / rat_of_nat h > t")
    case False
    then show ?thesis by (simp add: padLayout_narrow)
  next
    case True
    then have lo: "rat_of_nat h < rat_of_int W / t"
      using pos by (simp add: Wnat field_simps)
    have hi: "rat_of_int W / t < rat_of_nat h + 1 / 2"
    proof (cases "t = 1")
      case True
      then have "W = int h" by (simp add: W_def Math_round_of_nat)
      then show ?thesis using True by simp
    next
      case False
      then have "1 < t" using t1 by simp
      have "rat_of_int W / t \<le> (rat_of_nat h * t + 1 / 2) / t"
        using up pos by (simp add: divide_right_mono)
      also have "\<dots> = rat_of_nat h + 1 / (2 * t)" using pos by (simp add: field_simps)
      also have "\<dots> < rat_of_nat h + 1 / 2" using \<open>1 < t\<close> by (simp add: field_simps)
      finally show ?thesis .
    qed
    have "Math_round (rat_of_int W / t) = int h"
      unfolding Math_round_eq_iff using lo hi by simp
    with True show ?thesis by (simp add: padLayout_wide Wnat)
  qed
qed

text \<open>
  The source of 10 by 5 pixels padded to 16:9 is 10 by 6; padding that raster to 16:9 again
  gives 11 by 6.
\<close>

theorem repad_counterexample:
  "padImage (sample_env2 (10, 5) (10, 6)) ''c3Jj'' (16 / 9) =
     Resolved \<lparr>base64 = ''cG5n'', dimensions = \<lparr>width = 10, height = 6\<rparr>\<rparr>
   \<and> padImage (sample_env2 (10, 5) (10, 6)) ''cG5n'' (16 / 9) =
     Resolved \<lparr>base64 = ''cG5n'', dimensions = \<lparr>width = 11, height = 6\<rparr>\<rparr>"
  by code_simp

text \<open>
  Claim C3, amended. Let a source of \<open>w\<close> by \<open>h\<close> pixels be padded to the positive ratio \<open>t\<close>,
  and let the output, which decodes to the size of its canvas, be padded to \<open>t\<close> again. The
  second padding leaves unchanged the dimension that the first one computed by rounding
  (the height if \<open>w / h > t\<close>, the width otherwise). It leaves both dimensions unchanged if
  the first padding added rows and \<open>t \<le> 1\<close>, or added columns and \<open>1 \<le> t\<close>.
\<close>

theorem repad_dimensions:
  assumes dec: "decode e (data_png_url b) = Some (w, h)"
    and ctx: "getContext e"
    and pos: "0 < w" "0 < h" "0 < t"
    and first: "padImage e b t = Resolved r1"
    and dec1: "decode e (data_png_url (base64 r1)) =
                 Some (nat (width (dimensions r1)), nat (height (dimensions r1)))"
    and second: "padImage e (base64 r1) t = Resolved r2"
  shows "(if rat_of_nat w / rat_of_nat h > t
          then height (dimensions r2) = height (dimensions r1)
          else width (dimensions r2) = width (dimensions r1))
       \<and> (rat_of_nat w / rat_of_nat h > t \<and> t \<le> 1 \<or> \<not> rat_of_nat w / rat_of_nat h > t \<and> 1 \<le> t
            \<longrightarrow> dimensions r2 = dimensions r1)"
proof -
  have d1: "dimensions r1 = \<lparr>width = canvasWidth (padLayout w h t),
                             height = canvasHeight (padLayout w h t)\<rparr>"
    using first dec ctx by (auto simp: padImage_def Let_def)
  have d2: "dimensions r2 =
      \<lparr>width = canvasWidth (padLayout (nat (width (dimensions r1))) (nat (height (dimensions r1))) t),
       height = canvasHeight (padLayout (nat (width (dimensions r1))) (nat (height (dimensions r1))) t)\<rparr>"
    using second dec1 ctx by (auto simp: padImage_def Let_def)
  show ?thesis
  proof (cases "rat_of_nat w / rat_of_nat h > t")
    case True
    have r1: "dimensions r1 = \<lparr>width = int w, height = Math_round (rat_of_nat w / t)\<rparr>"
      using d1 True by (simp add: padLayout_wide)
    from repad_after_rows [OF pos True] r1 d2 True show ?thesis by simp
  next
    case False
    have r1: "dimensions r1 = \<lparr>width = Math_round (rat_of_nat h * t), height = int h\<rparr>"
      using d1 False by (simp add: padLayout_narrow)
    from repad_after_columns [OF pos False] r1 d2 False show ?thesis by simp
  qed
qed

text \<open>A source of 5 by 10 pixels and the ratio 16:9: 18 by 10, twice.\<close>

theorem repad_dimensions_witness:
  "padImage (sample_env2 (5, 10) (18, 10)) ''c3Jj'' (16 / 9) =
     Resolved \<lparr>base64 = ''cG5n'', dimensions = \<lparr>width = 18, height = 10\<rparr>\<rparr>
   \<and> padImage (sample_env2 (5, 10) (18, 10)) ''cG5n'' (16 / 9) =
     Resolved \<lparr>base64 = ''cG5n'', dimensions = \<lparr>width = 18, height = 10\<rparr>\<rparr>
   \<and> \<not> rat_of_nat 5 / rat_of_nat 10 > 16 / 9 \<and> (1::rat) \<le> 16 / 9
   \<and> dimensions \<lparr>base64 = ''cG5n'', dimensions = \<lparr>width = 18, height = 10\<rparr>\<rparr>
     = dimensions \<lparr>base64 = ''cG5n'', dimensions = \<lparr>width = 18, height = 10\<rparr>\<rparr>"
proof -
  let ?e = "sample_env2 (5, 10) (18, 10)"
  let ?r = "\<lparr>base64 = ''cG5n'', dimensions = \<lparr>width = 18, height = 10\<rparr>\<rparr>"
  have dec: "decode ?e (data_png_url ''c3Jj'') = Some (5, 10)"
    by (simp add: sample_env2_def)
  have ctx: "getContext ?e"
    by (simp add: sample_env2_def sample_env_def)
  have first: "padImage ?e ''c3Jj'' (16 / 9) = Resolved ?r" by code_simp
  have dec1: "decode ?e (data_png_url (base64 ?r)) =
                 Some (nat (width (dimensions ?r)), nat (height (dimensions ?r)))"
    by (simp add: sample_env2_def data_png_url_def)
  have second: "padImage ?e (base64 ?r) (16 / 9) = Resolved ?r" by code_simp
  have side: "\<not> rat_of_nat 5 / rat_of_nat 10 > 16 / 9" "(1::rat) \<le> 16 / 9" by simp_all
  from repad_dimensions [OF dec ctx _ _ _ first dec1 second] first second side
  show ?thesis by simp
qed

section \<open>Cropping in native pixels\<close>

lemma sample_env_fields:
  "decode (sample_env n) u = Some n"
  "getContext (sample_env n)"
  "toDataURL (sample_env n) d = ''cG5n''"
  "getBoundingClientRect (sample_env n) = Some (320, 180)"
  by (simp_all add: sample_env_def)

lemma sample_session_fields:
  "currentImage (sample_session (w, h) (rw, rh)) = Some (version ''QQ=='' w h)"
  "aspectRatio (sample_session (w, h) (rw, rh)) = ''reference''"
  "attachedImageDimensions (sample_session (w, h) (rw, rh)) = Some \<lparr>width = rw, height = rh\<rparr>"
  "cropInteractionRef (sample_session (w, h) (rw, rh)) =
     \<lparr>isDragging = False, isResizing = False, startX = 0, startY = 0, startCrop = None\<rparr>"
  by (simp_all add: sample_session_def currentImage_def initial_state_def)

lemma targetAspectRatio_reference:
  "aspectRatio s = ''reference'' \<Longrightarrow> attachedImageDimensions s = Some d \<Longrightarrow>
   targetAspectRatio e s = Some (rat_of_int (width d) / rat_of_int (height d))"
  by (simp add: targetAspectRatio_def)

lemma targetRatio_reference:
  "aspectRatio s = ''reference'' \<Longrightarrow> attachedImageDimensions s = Some d \<Longrightarrow>
   targetRatio e s = Some (rat_of_int (width d) / rat_of_int (height d))"
  by (simp add: targetRatio_def)




section \<open>Dragging and resizing the crop\<close>

text \<open>
  Claim C5 says that a dragged crop rectangle is moved by the drag and clamped to the
  rendered image area, which it never leaves. The handler clamps against the box of the
  container instead. A square image of 1000 pixels is rendered 180 by 180 in the container
  of 320 by 180, and the crop for a square reference covers that area. Dragging it by 100
  pixels to the right puts it at x = 100: the clamp allows x up to 320 - 180, so the
  rectangle ends at 280, outside the rendered area of width 180, and the native rectangle
  ends beyond the image.
\<close>

theorem drag_leaves_rendered_area:
  "crop (cropEffect (sample_env (1000, 1000)) (sample_session (1000, 1000) (500, 500)))
     = Some \<lparr>crop_x = 0, crop_y = 0, crop_width = 180, crop_height = 180\<rparr>
   \<and> rendered (320, 180) 1000 1000 = (180, 180)
   \<and> crop (handleCropMouseMove (sample_env (1000, 1000)) (100, 0) (320, 180)
        (handleCropMouseDown (sample_env (1000, 1000)) (0, 0) False
          (cropEffect (sample_env (1000, 1000)) (sample_session (1000, 1000) (500, 500)))))
     = Some \<lparr>crop_x = 100, crop_y = 0, crop_width = 180, crop_height = 180\<rparr>
   \<and> pixelCrop (sample_env (1000, 1000)) (1000, 1000)
        \<lparr>crop_x = 100, crop_y = 0, crop_width = 180, crop_height = 180\<rparr>
     = \<lparr>crop_x = 5000 / 9, crop_y = 0, crop_width = 1000, crop_height = 1000\<rparr>"
proof -
  let ?e = "sample_env (1000, 1000)"
  let ?s0 = "sample_session (1000, 1000) (500, 500)"
  let ?c0 = "\<lparr>crop_x = 0, crop_y = 0, crop_width = 180, crop_height = 180\<rparr>"
  have box: "getBoundingClientRect ?e = Some (320, 180)" by (simp add: sample_env_def)
  have r: "rendered (320, 180) 1000 1000 = (180, 180)" by (simp add: rendered_def)
  have cur: "currentImage ?s0 = Some (version ''QQ=='' 1000 1000)"
    by (simp add: currentImage_def sample_session_def)
  have t: "targetAspectRatio ?e ?s0 = Some 1"
    by (simp add: targetAspectRatio_def sample_session_def)
  have eff: "cropEffect ?e ?s0 = ?s0\<lparr>crop := Some ?c0, isCropping := True\<rparr>"
    by (simp add: cropEffect_def cur box t truthy_number_def version_def r)
  have down: "handleCropMouseDown ?e (0, 0) False (?s0\<lparr>crop := Some ?c0, isCropping := True\<rparr>)
      = ?s0\<lparr>crop := Some ?c0, isCropping := True,
            cropInteractionRef := \<lparr>isDragging = True, isResizing = False, startX = 0,
                                    startY = 0, startCrop = Some ?c0\<rparr>\<rparr>"
    by (simp add: handleCropMouseDown_def box)
  have move: "crop (handleCropMouseMove ?e (100, 0) (320, 180)
         (?s0\<lparr>crop := Some ?c0, isCropping := True,
            cropInteractionRef := \<lparr>isDragging = True, isResizing = False, startX = 0,
                                    startY = 0, startCrop = Some ?c0\<rparr>\<rparr>))
      = Some \<lparr>crop_x = 100, crop_y = 0, crop_width = 180, crop_height = 180\<rparr>"
    by (simp add: handleCropMouseMove_def clamp_and_set_def)
  have px: "pixelCrop ?e (1000, 1000)
        \<lparr>crop_x = 100, crop_y = 0, crop_width = 180, crop_height = 180\<rparr>
     = \<lparr>crop_x = 5000 / 9, crop_y = 0, crop_width = 1000, crop_height = 1000\<rparr>"
    by (simp add: pixelCrop_def box r)
  show ?thesis
    by (simp only: eff down move px r) simp
qed

text \<open>What the clamp does keep: the dragged rectangle stays inside the box of the
  container, when it is not larger than that box.\<close>

lemma drag_stays_in_container:
  assumes ref: "startCrop (cropInteractionRef s) = Some sc"
    and mode: "isDragging (cropInteractionRef s)"
    and fits: "crop_width sc \<le> fst box" "crop_height sc \<le> snd box"
  shows "\<exists>c. crop (handleCropMouseMove e client box s) = Some c
           \<and> crop_width c = crop_width sc \<and> crop_height c = crop_height sc
           \<and> crop_x c = max 0 (min (crop_x sc + (fst client - startX (cropInteractionRef s)))
                                    (fst box - crop_width sc))
           \<and> crop_y c = max 0 (min (crop_y sc + (snd client - startY (cropInteractionRef s)))
                                    (snd box - crop_height sc))
           \<and> 0 \<le> crop_x c \<and> crop_x c + crop_width c \<le> fst box
           \<and> 0 \<le> crop_y c \<and> crop_y c + crop_height c \<le> snd box"
  using assms
  by (simp add: handleCropMouseMove_def Let_def clamp_and_set_def) (simp add: max_def min_def)

text \<open>
  With a reference image of 1000 by 10 pixels the crop starts 3.2 pixels high. A resize is
  then rejected, and the rectangle that stays is below the minimum of 20.
\<close>

theorem resize_keeps_small_rectangle_counterexample:
  "crop (cropEffect (sample_env (1600, 900)) (sample_session (1600, 900) (1000, 10)))
     = Some \<lparr>crop_x = 0, crop_y = 442 / 5, crop_width = 320, crop_height = 16 / 5\<rparr>
   \<and> crop (handleCropMouseMove (sample_env (1600, 900)) (10, 0) (320, 180)
        (handleCropMouseDown (sample_env (1600, 900)) (0, 0) True
          (cropEffect (sample_env (1600, 900)) (sample_session (1600, 900) (1000, 10)))))
     = Some \<lparr>crop_x = 0, crop_y = 442 / 5, crop_width = 320, crop_height = 16 / 5\<rparr>
   \<and> (16 / 5 :: rat) < 20"
proof -
  let ?e = "sample_env (1600, 900)"
  let ?s0 = "sample_session (1600, 900) (1000, 10)"
  let ?c0 = "\<lparr>crop_x = 0, crop_y = 442 / 5, crop_width = 320, crop_height = 16 / 5\<rparr>"
  let ?s1 = "?s0\<lparr>crop := Some ?c0, isCropping := True\<rparr>"
  let ?s2 = "?s1\<lparr>cropInteractionRef :=
               \<lparr>isDragging = False, isResizing = True, startX = 0, startY = 0,
                startCrop = Some ?c0\<rparr>\<rparr>"
  have r: "rendered (320, 180) 1600 900 = (320, 180)" by (simp add: rendered_def)
  have t: "targetAspectRatio ?e ?s0 = Some 100"
    by (simp add: targetAspectRatio_reference [OF sample_session_fields(2,3)])
  have eff: "cropEffect ?e ?s0 = ?s1"
    by (simp add: cropEffect_def sample_session_fields sample_env_fields t truthy_number_def
        version_def r)
  have down: "handleCropMouseDown ?e (0, 0) True ?s1 = ?s2"
    by (simp add: handleCropMouseDown_def sample_env_fields)
  have t2: "targetRatio ?e ?s2 = Some 100"
    by (simp add: targetRatio_def sample_session_def)
  have rs: "resized (320, 180) ?c0 100 10 = (320, 16 / 5)"
    by (simp add: resized_def)
  have move: "handleCropMouseMove ?e (10, 0) (320, 180) ?s2 = ?s2"
    by (simp add: handleCropMouseMove_def t2 truthy_number_def rs)
  show ?thesis
    by (simp only: eff down move) simp
qed

lemma resized_bounds:
  assumes r: "0 < r"
  shows "crop_x sc + fst (resized box sc r dx) \<le> fst box"
    and "crop_y sc + snd (resized box sc r dx) \<le> snd box"
    and "fst (resized box sc r dx) = snd (resized box sc r dx) * r"
proof -
  let ?w0 = "crop_width sc + dx"
  let ?w1 = "if crop_x sc + ?w0 > fst box then fst box - crop_x sc else ?w0"
  let ?h1 = "?w1 / r"
  have w1: "crop_x sc + ?w1 \<le> fst box" by simp
  have res: "resized box sc r dx =
      (if crop_y sc + ?h1 > snd box then ((snd box - crop_y sc) * r, snd box - crop_y sc)
       else (?w1, ?h1))"
    by (simp add: resized_def Let_def)
  show "crop_y sc + snd (resized box sc r dx) \<le> snd box"
    unfolding res by simp
  show "fst (resized box sc r dx) = snd (resized box sc r dx) * r"
    unfolding res using r by simp
  show "crop_x sc + fst (resized box sc r dx) \<le> fst box"
  proof (cases "crop_y sc + ?h1 > snd box")
    case False
    then show ?thesis unfolding res using w1 by simp
  next
    case True
    then have "snd box - crop_y sc < ?w1 / r" by simp
    then have "(snd box - crop_y sc) * r < ?w1"
      using r by (simp add: pos_less_divide_eq)
    with w1 True show ?thesis unfolding res by simp
  qed
qed

text \<open>
  Claim C6, amended. For a start rectangle with a non-negative origin and a positive ratio,
  a resize is rejected exactly when the width or height it asks for, after the cut at the
  container, is below 20, and then the state, with its crop, is left as it was. Otherwise
  the crop is set to a rectangle at the start origin whose width and height are at least 20
  and whose far edges are inside the box of the container.
\<close>

theorem resize_min_and_bounds:
  assumes ref: "startCrop (cropInteractionRef s) = Some sc"
    and mode: "isResizing (cropInteractionRef s)" "\<not> isDragging (cropInteractionRef s)"
    and ratio: "targetRatio e s = Some r" "0 < r"
    and origin: "0 \<le> crop_x sc" "0 \<le> crop_y sc"
  shows
    "(if fst (resized box sc r (fst client - startX (cropInteractionRef s))) < 20
         \<or> snd (resized box sc r (fst client - startX (cropInteractionRef s))) < 20
      then handleCropMouseMove e client box s = s
      else (\<exists>c. crop (handleCropMouseMove e client box s) = Some c
              \<and> crop_x c = crop_x sc \<and> crop_y c = crop_y sc
              \<and> crop_width c = fst (resized box sc r (fst client - startX (cropInteractionRef s)))
              \<and> crop_height c = snd (resized box sc r (fst client - startX (cropInteractionRef s)))
              \<and> 20 \<le> crop_width c \<and> 20 \<le> crop_height c
              \<and> crop_x c + crop_width c \<le> fst box
              \<and> crop_y c + crop_height c \<le> snd box))"
proof -
  let ?dx = "fst client - startX (cropInteractionRef s)"
  obtain nw nh where res: "resized box sc r ?dx = (nw, nh)" by (cases "resized box sc r ?dx")
  have b: "crop_x sc + nw \<le> fst box" "crop_y sc + nh \<le> snd box"
    using resized_bounds(1,2) [OF ratio(2), of sc box ?dx] res by simp_all
  have t: "truthy_number (targetRatio e s)" "the (targetRatio e s) = r"
    using ratio by (simp_all add: truthy_number_def)
  show ?thesis
  proof (cases "nw < 20 \<or> nh < 20")
    case True
    then show ?thesis
      using ref mode t res by (simp add: handleCropMouseMove_def Let_def)
  next
    case False
    have x: "max 0 (min (crop_x sc) (fst box - nw)) = crop_x sc"
      using b origin by simp
    have y: "max 0 (min (crop_y sc) (snd box - nh)) = crop_y sc"
      using b origin by simp
    from False show ?thesis
      using ref mode t res b x y
      by (simp add: handleCropMouseMove_def Let_def clamp_and_set_def)
  qed
qed

text \<open>A crop of 180 by 180 at x = 70: a resize by -100 gives 80 by 80, a resize by -170 is
  rejected.\<close>

theorem resize_min_and_bounds_witness:
  "crop (cropEffect (sample_env (1600, 900)) (sample_session (1600, 900) (500, 500)))
     = Some \<lparr>crop_x = 70, crop_y = 0, crop_width = 180, crop_height = 180\<rparr>
   \<and> crop (handleCropMouseMove (sample_env (1600, 900)) (- 100, 0) (320, 180)
        (handleCropMouseDown (sample_env (1600, 900)) (0, 0) True
          (cropEffect (sample_env (1600, 900)) (sample_session (1600, 900) (500, 500)))))
     = Some \<lparr>crop_x = 70, crop_y = 0, crop_width = 80, crop_height = 80\<rparr>
   \<and> handleCropMouseMove (sample_env (1600, 900)) (- 170, 0) (320, 180)
        (handleCropMouseDown (sample_env (1600, 900)) (0, 0) True
          (cropEffect (sample_env (1600, 900)) (sample_session (1600, 900) (500, 500))))
     = handleCropMouseDown (sample_env (1600, 900)) (0, 0) True
          (cropEffect (sample_env (1600, 900)) (sample_session (1600, 900) (500, 500)))"
proof -
  let ?e = "sample_env (1600, 900)"
  let ?s0 = "sample_session (1600, 900) (500, 500)"
  let ?c0 = "\<lparr>crop_x = 70, crop_y = 0, crop_width = 180, crop_height = 180\<rparr>"
  let ?s1 = "?s0\<lparr>crop := Some ?c0, isCropping := True\<rparr>"
  let ?s2 = "?s1\<lparr>cropInteractionRef :=
               \<lparr>isDragging = False, isResizing = True, startX = 0, startY = 0,
                startCrop = Some ?c0\<rparr>\<rparr>"
  have r: "rendered (320, 180) 1600 900 = (320, 180)" by (simp add: rendered_def)
  have t: "targetAspectRatio ?e ?s0 = Some 1"
    by (simp add: targetAspectRatio_reference [OF sample_session_fields(2,3)])
  have eff: "cropEffect ?e ?s0 = ?s1"
    by (simp add: cropEffect_def sample_session_fields sample_env_fields t truthy_number_def
        version_def r)
  have down: "handleCropMouseDown ?e (0, 0) True ?s1 = ?s2"
    by (simp add: handleCropMouseDown_def sample_env_fields)
  have ref: "startCrop (cropInteractionRef ?s2) = Some ?c0"
    and mode: "isResizing (cropInteractionRef ?s2)" "\<not> isDragging (cropInteractionRef ?s2)"
    and sx: "startX (cropInteractionRef ?s2) = 0"
    by simp_all
  have ratio: "targetRatio ?e ?s2 = Some 1" "(0::rat) < 1"
    by (simp_all add: targetRatio_def sample_session_def)
  have origin: "0 \<le> crop_x ?c0" "0 \<le> crop_y ?c0" by simp_all
  have rs: "resized (320, 180) ?c0 1 (- 100) = (80, 80)" "resized (320, 180) ?c0 1 (- 170) = (10, 10)"
    by (simp_all add: resized_def)
  have grow: "crop (handleCropMouseMove ?e (- 100, 0) (320, 180) ?s2)
      = Some \<lparr>crop_x = 70, crop_y = 0, crop_width = 80, crop_height = 80\<rparr>"
    using resize_min_and_bounds [OF ref mode ratio origin, of "(320, 180)" "(- 100, 0)"]
    by (auto simp: sx rs)
  have reject: "handleCropMouseMove ?e (- 170, 0) (320, 180) ?s2 = ?s2"
    using resize_min_and_bounds [OF ref mode ratio origin, of "(320, 180)" "(- 170, 0)"]
    by (simp add: sx rs)
  show ?thesis
    by (simp only: eff down grow reject) simp
qed

end
